theory Spec2Isabelle
  imports Main "HOL-Library.Word"
begin

unbundle bit_operations_syntax

section \<open>The four echo servers of io-model-demo\<close>

text \<open>
  The repository holds four single-threaded echo servers, one per readiness interface:
  \<^verbatim>\<open>selectserverdemo.cpp\<close>, \<^verbatim>\<open>pollserverdemo.cpp\<close>, \<^verbatim>\<open>epollserverdemo.cpp\<close>
  (level-triggered) and \<^verbatim>\<open>epollETserverdemo.cpp\<close> (edge-triggered).  Each \<^verbatim>\<open>main\<close> is
  embedded as a function of the program's variables.  Whatever the operating system
  returns to a system call is an argument of the model (a script of replies), and every
  system call and every update of the watched set is appended, in program order, to a
  trace kept in the state.  The \<^verbatim>\<open>printf\<close>/\<^verbatim>\<open>perror\<close> diagnostics are left out.
\<close>

subsection \<open>Bytes, buffers, replies\<close>

type_synonym byte = "8 word"

text \<open>What \<^verbatim>\<open>read(fd, buffer, sizeof(buffer))\<close> can answer: some bytes, end of stream
  (return value 0), or \<^verbatim>\<open>-1\<close> with an \<^verbatim>\<open>errno\<close>.\<close>

datatype read_result = ReadData "byte list" | ReadEof | ReadErr int

text \<open>The replies of the operating system to the calls made while one readiness entry
  is handled: the value of \<^verbatim>\<open>accept\<close>, of the single \<^verbatim>\<open>read\<close> of the select, poll and
  level-triggered servers, of the successive \<^verbatim>\<open>read\<close>s of the edge-triggered drain loop,
  and of the two \<^verbatim>\<open>fcntl\<close> calls of \<^verbatim>\<open>set_nonblocking\<close>.\<close>

record os_reply =
  accept_ret :: int
  read_ret :: read_result
  read_rets :: "read_result list"
  getfl_ret :: int
  setfl_ret :: int

datatype action =
    SysSocket int
  | SysSetsockopt int
  | SysBind int
  | SysListen int
  | SysAccept int int
  | SysRead int nat
  | SysWrite int "byte list"
  | SysClose int
  | SysSelect int
  | SysPoll int
  | SysEpollCreate int
  | SysEpollWait int
  | SysEpollCtlAdd int int "32 word"
  | SysEpollCtlDel int int
  | SysFcntlGetfl int
  | SysFcntlSetfl int int
  | FdSet int
  | FdClr int
  | PfdsRegister int
  | PfdsInvalidate int

text \<open>Behaviour that C++ leaves undefined is a value of the model, not an unspecified
  HOL term: \<^verbatim>\<open>strlen\<close> running off a buffer that holds no NUL, and an index outside a
  fixed-size array or \<^verbatim>\<open>fd_set\<close>.\<close>

datatype fault =
    StrlenOverread
  | FdSetRange int
  | PfdsRange int
  | EventsRange int

text \<open>How a piece of \<^verbatim>\<open>main\<close> ends: control goes on (\<open>Go\<close>), \<^verbatim>\<open>main\<close> returns a value
  (\<open>Ret\<close>), the behaviour is undefined (\<open>Undefined\<close>), or the script of replies is used up
  while the program is still running (\<open>Running\<close>).\<close>

datatype 's flow = Go 's | Ret int 's | Undefined fault 's | Running 's

record reactor =
  listensock :: int
  trace :: "action list"

definition emit :: "action \<Rightarrow> 'a reactor_scheme \<Rightarrow> 'a reactor_scheme" where
  "emit a st = st\<lparr>trace := trace st @ [a]\<rparr>"

text \<open>\<^verbatim>\<open>memset(buffer, 0, sizeof(buffer))\<close>.\<close>

definition zero_buffer :: "nat \<Rightarrow> byte list" where
  "zero_buffer n = replicate n 0"

text \<open>\<^verbatim>\<open>read\<close> stores at most \<^verbatim>\<open>sizeof(buffer)\<close> bytes at the start of the buffer and leaves
  the rest of it as it was; the pair is the return value and the buffer afterwards.\<close>

definition sys_read :: "byte list \<Rightarrow> read_result \<Rightarrow> int \<times> byte list" where
  "sys_read buffer r =
     (case r of
        ReadData bs \<Rightarrow>
          (let d = take (length buffer) bs in (int (length d), d @ drop (length d) buffer))
      | ReadEof \<Rightarrow> (0, buffer)
      | ReadErr e \<Rightarrow> (-1, buffer))"

definition read_errno :: "read_result \<Rightarrow> int" where
  "read_errno r = (case r of ReadErr e \<Rightarrow> e | _ \<Rightarrow> 0)"

text \<open>\<^verbatim>\<open>strlen(buffer)\<close>: the index of the first NUL; with no NUL inside the array the
  call reads past its end.\<close>

definition c_strlen :: "byte list \<Rightarrow> nat option" where
  "c_strlen buffer =
     (if 0 \<in> set buffer then Some (length (takeWhile (\<lambda>b. b \<noteq> 0) buffer)) else None)"

text \<open>\<^verbatim>\<open>write(fd, buffer, strlen(buffer))\<close>; the value of \<^verbatim>\<open>write\<close> is ignored.\<close>

definition echo :: "int \<Rightarrow> byte list \<Rightarrow> 'a reactor_scheme \<Rightarrow> 'a reactor_scheme flow" where
  "echo fd buffer st =
     (case c_strlen buffer of
        None \<Rightarrow> Undefined StrlenOverread st
      | Some n \<Rightarrow> Go (emit (SysWrite fd (take n buffer)) st))"

subsection \<open>initserver\<close>

record init_reply =
  socket_ret :: int
  bind_ret :: int
  listen_ret :: int

text \<open>\<^verbatim>\<open>initserver\<close> is the same in the four files: the socket, or \<^verbatim>\<open>-1\<close> when \<^verbatim>\<open>socket\<close>,
  \<^verbatim>\<open>bind\<close> or \<^verbatim>\<open>listen\<close> fails.\<close>

definition initserver :: "init_reply \<Rightarrow> int \<times> action list" where
  "initserver r =
     (let sock = socket_ret r in
      if sock < 0 then (-1, [SysSocket sock])
      else if bind_ret r < 0 then
        (-1, [SysSocket sock, SysSetsockopt sock, SysSetsockopt sock, SysBind sock, SysClose sock])
      else if listen_ret r \<noteq> 0 then
        (-1, [SysSocket sock, SysSetsockopt sock, SysSetsockopt sock, SysBind sock,
              SysListen sock, SysClose sock])
      else
        (sock, [SysSocket sock, SysSetsockopt sock, SysSetsockopt sock, SysBind sock,
                SysListen sock]))"

subsection \<open>Recomputing maxfd\<close>

record scan_state = reactor +
  maxfd :: int

text \<open>The loop \<^verbatim>\<open>for (int ii = maxfd; ii > 0; ii--) if (live ii) { maxfd = ii; break; }\<close>
  of the select and poll servers; the last argument is the value \<^verbatim>\<open>maxfd\<close> keeps when
  the loop ends without a hit.\<close>

function scan_maxfd :: "(int \<Rightarrow> bool) \<Rightarrow> int \<Rightarrow> int \<Rightarrow> int" where
  "scan_maxfd live ii old =
     (if ii > 0 then (if live ii then ii else scan_maxfd live (ii - 1) old) else old)"
  by pat_completeness auto
termination
  by (relation "measure (\<lambda>(live, ii, old). nat ii)") auto

declare scan_maxfd.simps [simp del]

subsection \<open>selectserverdemo.cpp\<close>

text \<open>\<^verbatim>\<open>FD_SETSIZE\<close> of \<^verbatim>\<open><sys/select.h>\<close>, the 1024 of the file's first comment: an
  \<^verbatim>\<open>fd_set\<close> has bits \<open>0 .. FD_SETSIZE - 1\<close> only.\<close>

definition FD_SETSIZE :: int where
  "FD_SETSIZE = 1024"

record select_state = scan_state +
  fdset :: "int set"

text \<open>One reply of the wait call: its return value, its readiness report (for select, the
  descriptors the kernel finds readable), and the replies to the calls made while the
  report is dispatched, by loop index.\<close>

record 'r wait_reply =
  wait_ret :: int
  report :: 'r
  replies :: "int \<Rightarrow> os_reply"

text \<open>Lines 103-119: the listening socket is readable.\<close>

definition select_accept :: "select_state \<Rightarrow> int \<Rightarrow> select_state flow" where
  "select_accept st clientsock =
     (let st1 = emit (SysAccept (listensock st) clientsock) st in
      if clientsock < 0 then Go st1
      else if \<not> clientsock < FD_SETSIZE then Undefined (FdSetRange clientsock) st1
      else
        let st2 = emit (FdSet clientsock) (st1\<lparr>fdset := insert clientsock (fdset st1)\<rparr>) in
        Go (if maxfd st2 < clientsock then st2\<lparr>maxfd := clientsock\<rparr> else st2))"

text \<open>Lines 124-156: a client socket is readable.\<close>

definition select_client :: "select_state \<Rightarrow> int \<Rightarrow> read_result \<Rightarrow> select_state flow" where
  "select_client st eventfd r =
     (let (isize, buffer) = sys_read (zero_buffer 1024) r;
          st1 = emit (SysRead eventfd 1024) st in
      if isize \<le> 0 then
        let st2 = emit (SysClose eventfd) st1;
            st3 = emit (FdClr eventfd) (st2\<lparr>fdset := fdset st2 - {eventfd}\<rparr>) in
        Go (if eventfd = maxfd st3
            then st3\<lparr>maxfd := scan_maxfd (\<lambda>ii. ii \<in> fdset st3) (maxfd st3) (maxfd st3)\<rparr>
            else st3)
      else echo eventfd buffer st1)"

text \<open>Lines 84-157: the body of the dispatch loop for one value of \<^verbatim>\<open>eventfd\<close>.\<close>

definition select_body ::
  "select_state \<Rightarrow> int set \<Rightarrow> os_reply \<Rightarrow> int \<Rightarrow> select_state flow" where
  "select_body st tmpfdset r eventfd =
     (if \<not> (0 \<le> eventfd \<and> eventfd < FD_SETSIZE) then Undefined (FdSetRange eventfd) st
      else if eventfd \<notin> tmpfdset then Go st
      else if eventfd = listensock st then select_accept st (accept_ret r)
      else select_client st eventfd (read_ret r))"

text \<open>Neither branch of the body raises \<^verbatim>\<open>maxfd\<close> beyond the last bit of an \<^verbatim>\<open>fd_set\<close>,
  which bounds the dispatch loop.\<close>

lemma scan_maxfd_le: "scan_maxfd live ii old \<le> max ii old"
proof (induction live ii old rule: scan_maxfd.induct)
  case (1 live ii old)
  show ?case
  proof (cases "ii > 0 \<and> \<not> live ii")
    case True
    with 1 have "scan_maxfd live (ii - 1) old \<le> max (ii - 1) old" by simp
    moreover from True have "scan_maxfd live ii old = scan_maxfd live (ii - 1) old"
      by (subst scan_maxfd.simps) simp
    ultimately show ?thesis by simp
  next
    case False
    then show ?thesis by (subst scan_maxfd.simps) auto
  qed
qed

lemma echo_Go: "echo fd buffer st = Go st' \<Longrightarrow> \<exists>bs. st' = emit (SysWrite fd bs) st"
  by (auto simp: echo_def split: option.splits)

lemma maxfd_emit [simp]: "maxfd (emit a st) = maxfd st"
  by (simp add: emit_def)

lemma listensock_emit [simp]: "listensock (emit a st) = listensock st"
  by (simp add: emit_def)

lemma trace_emit [simp]: "trace (emit a st) = trace st @ [a]"
  by (simp add: emit_def)

lemma fdset_emit [simp]: "fdset (emit a st) = fdset st"
  by (simp add: emit_def)

lemma scan_maxfd_self: "scan_maxfd live m m \<le> m"
  using scan_maxfd_le [of live m m] by simp

lemma select_client_maxfd: "select_client st eventfd r = Go st' \<Longrightarrow> maxfd st' \<le> maxfd st"
  by (auto simp: select_client_def Let_def scan_maxfd_self
      split: if_splits prod.splits dest!: echo_Go)

lemma select_accept_maxfd:
  "select_accept st clientsock = Go st' \<Longrightarrow> maxfd st' \<le> max (maxfd st) 1023"
  by (auto simp: select_accept_def Let_def FD_SETSIZE_def split: if_splits)

lemma select_body_maxfd:
  assumes "select_body st tmpfdset r eventfd = Go st'"
  shows "max (maxfd st') 1023 \<le> max (maxfd st) 1023"
proof -
  from assms have "maxfd st' \<le> max (maxfd st) 1023"
    by (auto simp: select_body_def split: if_splits
        dest: select_client_maxfd select_accept_maxfd)
  then show ?thesis by simp
qed

text \<open>Lines 82-158: \<^verbatim>\<open>for (int eventfd = 0; eventfd <= maxfd; eventfd++)\<close>, where the body
  may change \<^verbatim>\<open>maxfd\<close>; \<^verbatim>\<open>continue\<close> is \<open>Go\<close>.\<close>

function select_for ::
  "select_state \<Rightarrow> int set \<Rightarrow> (int \<Rightarrow> os_reply) \<Rightarrow> int \<Rightarrow> select_state flow" where
  "select_for st tmpfdset env eventfd =
     (if eventfd \<le> maxfd st then
        (case select_body st tmpfdset (env eventfd) eventfd of
           Go st' \<Rightarrow> select_for st' tmpfdset env (eventfd + 1)
         | r \<Rightarrow> r)
      else Go st)"
  by pat_completeness auto
termination
proof (relation "measure (\<lambda>(st, tmpfdset, env, eventfd). nat (max (maxfd st) 1023 + 1 - eventfd))",
    goal_cases)
  case 1
  show ?case by simp
next
  case (2 st tmpfdset env eventfd st')
  from select_body_maxfd [OF 2(2)] 2(1) show ?case by simp
qed

declare select_for.simps [simp del]

text \<open>Lines 44-159: \<^verbatim>\<open>while (1)\<close>.  \<^verbatim>\<open>select\<close> overwrites the copy \<^verbatim>\<open>tmpfdset\<close> of
  \<^verbatim>\<open>set\<close>: below \<^verbatim>\<open>maxfd + 1\<close> only the readable descriptors stay.  A negative return
  value leaves the loop by \<^verbatim>\<open>break\<close>, and \<^verbatim>\<open>main\<close> ends with \<^verbatim>\<open>return 0\<close>.\<close>

fun select_loop :: "select_state \<Rightarrow> int set wait_reply list \<Rightarrow> select_state flow" where
  "select_loop st [] = Running st"
| "select_loop st (w # ws) =
     (let tmpfdset = Set.filter (\<lambda>fd. fd \<le> maxfd st \<longrightarrow> fd \<in> report w) (fdset st);
          infds = wait_ret w;
          st1 = emit (SysSelect (maxfd st + 1)) st in
      if infds < 0 then Ret 0 st1
      else if infds = 0 then select_loop st1 ws
      else
        (case select_for st1 tmpfdset (replies w) 0 of
           Go st2 \<Rightarrow> select_loop st2 ws
         | r \<Rightarrow> r))"

text \<open>Lines 19-42, then the loop.  What \<^verbatim>\<open>main\<close> hands back is the flow with the trace
  of the run; the early returns happen before the loop's variables exist.\<close>

definition select_init :: "int \<Rightarrow> action list \<Rightarrow> select_state" where
  "select_init sock tr =
     \<lparr>listensock = sock, trace = tr @ [FdSet sock], maxfd = sock, fdset = {sock}\<rparr>"


subsection \<open>pollserverdemo.cpp\<close>

definition MAXNFDS :: int where
  "MAXNFDS = 1024"

text \<open>\<^verbatim>\<open>POLLIN\<close> of \<^verbatim>\<open><poll.h>\<close>.\<close>

definition POLLIN :: "16 word" where
  "POLLIN = 1"

text \<open>\<^verbatim>\<open>struct pollfd\<close>, its fields prefixed.\<close>

record pollfd =
  p_fd :: int
  p_events :: "16 word"
  p_revents :: "16 word"

text \<open>\<^verbatim>\<open>struct pollfd pfds[MAXNFDS]\<close> is a function of the index; every access is guarded
  by the array's size where the source can leave it.\<close>

record poll_state = scan_state +
  pfds :: "nat \<Rightarrow> pollfd"

lemma pfds_emit [simp]: "pfds (emit a st) = pfds st"
  by (simp add: emit_def)

text \<open>What \<^verbatim>\<open>poll(pfds, nfds, -1)\<close> stores: below \<^verbatim>\<open>nfds\<close>, \<^verbatim>\<open>revents\<close> becomes 0 for an
  entry with a negative \<^verbatim>\<open>fd\<close> and the reported events otherwise.\<close>

definition sys_poll :: "(nat \<Rightarrow> pollfd) \<Rightarrow> int \<Rightarrow> (nat \<Rightarrow> 16 word) \<Rightarrow> nat \<Rightarrow> pollfd" where
  "sys_poll a nfds rep =
     (\<lambda>i. if int i < nfds
          then (a i)\<lparr>p_revents := (if p_fd (a i) < 0 then 0 else rep i)\<rparr>
          else a i)"

text \<open>Lines 93-117.\<close>

definition poll_accept :: "poll_state \<Rightarrow> int \<Rightarrow> poll_state flow" where
  "poll_accept st clientsock =
     (let st1 = emit (SysAccept (listensock st) clientsock) st in
      if clientsock < 0 then Go st1
      else if clientsock > MAXNFDS then Go (emit (SysClose clientsock) st1)
      else if \<not> clientsock < MAXNFDS then Undefined (PfdsRange clientsock) st1
      else
        let i = nat clientsock;
            st2 = emit (PfdsRegister clientsock)
                    (st1\<lparr>pfds := (pfds st1)(i := (pfds st1 i)\<lparr>p_fd := clientsock, p_events := POLLIN\<rparr>)\<rparr>) in
        Go (if maxfd st2 < clientsock then st2\<lparr>maxfd := clientsock\<rparr> else st2))"

text \<open>Lines 122-155.\<close>

definition poll_client :: "poll_state \<Rightarrow> int \<Rightarrow> read_result \<Rightarrow> poll_state flow" where
  "poll_client st eventfd r =
     (let (isize, buffer) = sys_read (zero_buffer 1024) r;
          st1 = emit (SysRead eventfd 1024) st in
      if isize \<le> 0 then
        let i = nat eventfd;
            st2 = emit (SysClose eventfd) st1;
            st3 = emit (PfdsInvalidate eventfd)
                    (st2\<lparr>pfds := (pfds st2)(i := (pfds st2 i)\<lparr>p_fd := -1\<rparr>)\<rparr>) in
        Go (if eventfd = maxfd st3
            then st3\<lparr>maxfd := scan_maxfd (\<lambda>ii. p_fd (pfds st3 (nat ii)) \<noteq> -1)
                                 (maxfd st3) (maxfd st3)\<rparr>
            else st3)
      else echo eventfd buffer st1)"

text \<open>Lines 71-156: the body of the dispatch loop for one value of \<^verbatim>\<open>eventfd\<close>.\<close>

definition poll_body :: "poll_state \<Rightarrow> os_reply \<Rightarrow> int \<Rightarrow> poll_state flow" where
  "poll_body st r eventfd =
     (if \<not> (0 \<le> eventfd \<and> eventfd < MAXNFDS) then Undefined (PfdsRange eventfd) st
      else
        let i = nat eventfd in
        if p_fd (pfds st i) < 0 then Go st
        else if p_revents (pfds st i) AND POLLIN = 0 then Go st
        else
          let st0 = st\<lparr>pfds := (pfds st)(i := (pfds st i)\<lparr>p_revents := 0\<rparr>)\<rparr> in
          if eventfd = listensock st0 then poll_accept st0 (accept_ret r)
          else poll_client st0 eventfd (read_ret r))"

lemma poll_client_maxfd: "poll_client st eventfd r = Go st' \<Longrightarrow> maxfd st' \<le> maxfd st"
  by (auto simp: poll_client_def Let_def scan_maxfd_self
      split: if_splits prod.splits dest!: echo_Go)

lemma poll_accept_maxfd:
  "poll_accept st clientsock = Go st' \<Longrightarrow> maxfd st' \<le> max (maxfd st) 1023"
  by (auto simp: poll_accept_def Let_def MAXNFDS_def split: if_splits)

lemma poll_body_maxfd:
  assumes "poll_body st r eventfd = Go st'"
  shows "max (maxfd st') 1023 \<le> max (maxfd st) 1023"
proof -
  from assms have "maxfd st' \<le> max (maxfd st) 1023"
    by (auto simp: poll_body_def Let_def split: if_splits
        dest: poll_client_maxfd poll_accept_maxfd)
  then show ?thesis by simp
qed

text \<open>Lines 69-157.\<close>

function poll_for :: "poll_state \<Rightarrow> (int \<Rightarrow> os_reply) \<Rightarrow> int \<Rightarrow> poll_state flow" where
  "poll_for st env eventfd =
     (if eventfd \<le> maxfd st then
        (case poll_body st (env eventfd) eventfd of
           Go st' \<Rightarrow> poll_for st' env (eventfd + 1)
         | r \<Rightarrow> r)
      else Go st)"
  by pat_completeness auto
termination
proof (relation "measure (\<lambda>(st, env, eventfd). nat (max (maxfd st) 1023 + 1 - eventfd))",
    goal_cases)
  case 1
  show ?case by simp
next
  case (2 st env eventfd st')
  from poll_body_maxfd [OF 2(2)] 2(1) show ?case by simp
qed

declare poll_for.simps [simp del]

text \<open>Lines 55-158: \<^verbatim>\<open>while (1)\<close>; a return value of \<^verbatim>\<open>-1\<close> leaves the loop by
  \<^verbatim>\<open>break\<close>, and \<^verbatim>\<open>main\<close> ends with \<^verbatim>\<open>return 0\<close>.\<close>

fun poll_loop :: "poll_state \<Rightarrow> (nat \<Rightarrow> 16 word) wait_reply list \<Rightarrow> poll_state flow" where
  "poll_loop st [] = Running st"
| "poll_loop st (w # ws) =
     (let ready = wait_ret w;
          st1 = emit (SysPoll (maxfd st + 1)) st in
      if ready = -1 then Ret 0 st1
      else
        (case poll_for (st1\<lparr>pfds := sys_poll (pfds st1) (maxfd st1 + 1) (report w)\<rparr>)
                (replies w) 0 of
           Go st2 \<Rightarrow> poll_loop st2 ws
         | r \<Rightarrow> r))"

text \<open>Lines 45-53: \<^verbatim>\<open>memset(pfds, 0, sizeof(pfds))\<close>, then the listening socket's entry.\<close>

definition poll_init :: "int \<Rightarrow> action list \<Rightarrow> poll_state" where
  "poll_init sock tr =
     \<lparr>listensock = sock, trace = tr @ [PfdsRegister sock], maxfd = sock,
      pfds = (\<lambda>i. \<lparr>p_fd = 0, p_events = 0, p_revents = 0\<rparr>)
               (nat sock := \<lparr>p_fd = sock, p_events = POLLIN, p_revents = 0\<rparr>)\<rparr>"


subsection \<open>epollserverdemo.cpp (level-triggered)\<close>

definition MAXEVENTS :: int where
  "MAXEVENTS = 1024"

text \<open>The event bits of \<^verbatim>\<open><sys/epoll.h>\<close>.\<close>

definition EPOLLIN :: "32 word" where
  "EPOLLIN = 0x001"

definition EPOLLERR :: "32 word" where
  "EPOLLERR = 0x008"

definition EPOLLHUP :: "32 word" where
  "EPOLLHUP = 0x010"

definition EPOLLET :: "32 word" where
  "EPOLLET = 0x80000000"

text \<open>\<^verbatim>\<open>struct epoll_event\<close>: the fields \<^verbatim>\<open>events\<close> and \<^verbatim>\<open>data.fd\<close>.\<close>

record epoll_event =
  e_events :: "32 word"
  data_fd :: int

record epoll_state = reactor +
  epollfd :: int
  ev :: epoll_event

lemma epollfd_emit [simp]: "epollfd (emit a st) = epollfd st"
  by (simp add: emit_def)

lemma ev_emit [simp]: "ev (emit a st) = ev st"
  by (simp add: emit_def)

text \<open>Lines 120-135.\<close>

definition epoll_accept :: "epoll_state \<Rightarrow> int \<Rightarrow> epoll_state flow" where
  "epoll_accept st clientsock =
     (let st1 = emit (SysAccept (listensock st) clientsock) st in
      if clientsock < 0 then Go st1
      else
        let st2 = st1\<lparr>ev := \<lparr>e_events = EPOLLIN, data_fd = clientsock\<rparr>\<rparr> in
        Go (emit (SysEpollCtlAdd (epollfd st2) clientsock (e_events (ev st2))) st2))"

text \<open>Lines 140-161.\<close>

definition epoll_client :: "epoll_state \<Rightarrow> int \<Rightarrow> read_result \<Rightarrow> epoll_state flow" where
  "epoll_client st fd r =
     (let (isize, buffer) = sys_read (zero_buffer 1024) r;
          st1 = emit (SysRead fd 1024) st in
      if isize \<le> 0 then
        let st2 = st1\<lparr>ev := \<lparr>e_events = EPOLLIN, data_fd = fd\<rparr>\<rparr>;
            st3 = emit (SysEpollCtlDel (epollfd st2) fd) st2 in
        Go (emit (SysClose fd) st3)
      else echo fd buffer st1)"

text \<open>Lines 105-162: the body of the dispatch loop for the entry \<^verbatim>\<open>events[i]\<close>.\<close>

definition epoll_body :: "epoll_state \<Rightarrow> epoll_event \<Rightarrow> os_reply \<Rightarrow> epoll_state flow" where
  "epoll_body st e r =
     (if data_fd e = listensock st \<and> e_events e AND EPOLLIN \<noteq> 0
      then epoll_accept st (accept_ret r)
      else if e_events e AND EPOLLIN \<noteq> 0 then epoll_client st (data_fd e) (read_ret r)
      else Go st)"

text \<open>Lines 102-163: \<^verbatim>\<open>for (int i = 0; i <= readyfds; i++)\<close> over the array
  \<^verbatim>\<open>events[MAXEVENTS]\<close>, given as the content of the array after \<^verbatim>\<open>epoll_wait\<close>: the
  kernel has filled the entries below \<^verbatim>\<open>readyfds\<close>, the others hold what the stack held.\<close>

function epoll_for ::
  "epoll_state \<Rightarrow> int \<Rightarrow> (nat \<Rightarrow> epoll_event) \<Rightarrow> (int \<Rightarrow> os_reply) \<Rightarrow> int \<Rightarrow> epoll_state flow"
  where
  "epoll_for st readyfds events env i =
     (if i \<le> readyfds then
        (if \<not> (0 \<le> i \<and> i < MAXEVENTS) then Undefined (EventsRange i) st
         else
           (case epoll_body st (events (nat i)) (env i) of
              Go st' \<Rightarrow> epoll_for st' readyfds events env (i + 1)
            | r \<Rightarrow> r))
      else Go st)"
  by pat_completeness auto
termination
  by (relation "measure (\<lambda>(st, readyfds, events, env, i). nat (readyfds + 1 - i))") auto

declare epoll_for.simps [simp del]

text \<open>Lines 71-169: \<^verbatim>\<open>while (1)\<close>, and after it \<^verbatim>\<open>close(epollfd); return 0;\<close>.\<close>

fun epoll_loop ::
  "epoll_state \<Rightarrow> (nat \<Rightarrow> epoll_event) wait_reply list \<Rightarrow> epoll_state flow" where
  "epoll_loop st [] = Running st"
| "epoll_loop st (w # ws) =
     (let readyfds = wait_ret w;
          st1 = emit (SysEpollWait (epollfd st)) st in
      if readyfds < 0 then Ret 0 (emit (SysClose (epollfd st1)) st1)
      else if readyfds = 0 then epoll_loop st1 ws
      else
        (case epoll_for st1 readyfds (report w) (replies w) 0 of
           Go st2 \<Rightarrow> epoll_loop st2 ws
         | r \<Rightarrow> r))"

text \<open>Lines 26-69; the second argument of \<open>epoll_init\<close> is the value of \<^verbatim>\<open>epoll_create\<close>.\<close>

definition epoll_init :: "int \<Rightarrow> int \<Rightarrow> action list \<Rightarrow> epoll_state" where
  "epoll_init sock epfd tr =
     \<lparr>listensock = sock,
      trace = tr @ [SysEpollCreate epfd, SysEpollCtlAdd epfd sock EPOLLIN],
      epollfd = epfd,
      ev = \<lparr>e_events = EPOLLIN, data_fd = sock\<rparr>\<rparr>"

definition epoll_main ::
  "int \<Rightarrow> init_reply \<Rightarrow> int \<Rightarrow> (nat \<Rightarrow> epoll_event) wait_reply list \<Rightarrow> action list flow"
  where
  "epoll_main argc ir epfd script =
     (if argc \<noteq> 2 then Ret (-1) []
      else
        let (sock, tr) = initserver ir in
        if sock < 0 then Ret (-1) tr
        else map_flow trace (epoll_loop (epoll_init sock epfd tr) script))"

subsection \<open>epollETserverdemo.cpp (edge-triggered)\<close>

text \<open>\<^verbatim>\<open>O_NONBLOCK\<close> of \<^verbatim>\<open><fcntl.h>\<close> and \<^verbatim>\<open>EAGAIN\<close>, \<^verbatim>\<open>EWOULDBLOCK\<close> of \<^verbatim>\<open><errno.h>\<close>, with
  their Linux values.\<close>

definition O_NONBLOCK :: int where
  "O_NONBLOCK = 2048"

definition EAGAIN :: int where
  "EAGAIN = 11"

definition EWOULDBLOCK :: int where
  "EWOULDBLOCK = 11"

text \<open>Lines 33-42: \<^verbatim>\<open>set_nonblocking\<close>; a failure of either \<^verbatim>\<open>fcntl\<close> is reported and
  otherwise ignored.\<close>

definition set_nonblocking :: "int \<Rightarrow> os_reply \<Rightarrow> 'a reactor_scheme \<Rightarrow> 'a reactor_scheme" where
  "set_nonblocking fd r st =
     (let flags = getfl_ret r;
          st1 = emit (SysFcntlGetfl fd) st in
      if flags = -1 then st1
      else emit (SysFcntlSetfl fd (flags OR O_NONBLOCK)) st1)"

text \<open>Lines 144-161.\<close>

definition et_accept :: "epoll_state \<Rightarrow> os_reply \<Rightarrow> epoll_state flow" where
  "et_accept st r =
     (let clientsock = accept_ret r;
          st1 = emit (SysAccept (listensock st) clientsock) st in
      if clientsock < 0 then Go st1
      else
        let st2 = set_nonblocking clientsock r st1;
            st3 = st2\<lparr>ev := \<lparr>e_events = EPOLLIN OR EPOLLET, data_fd = clientsock\<rparr>\<rparr> in
        Go (emit (SysEpollCtlAdd (epollfd st3) clientsock (e_events (ev st3))) st3))"

text \<open>Lines 169-191: \<^verbatim>\<open>for(;;)\<close> around \<^verbatim>\<open>read\<close> and \<^verbatim>\<open>write\<close>, on the buffer of five bytes
  that line 167 zeroes once, before the loop.  One reply of the script is used per
  \<^verbatim>\<open>read\<close>.\<close>

fun et_drain :: "epoll_state \<Rightarrow> int \<Rightarrow> byte list \<Rightarrow> read_result list \<Rightarrow> epoll_state flow" where
  "et_drain st fd buffer [] = Running st"
| "et_drain st fd buffer (r # rs) =
     (let (isize, buffer') = sys_read buffer r;
          st1 = emit (SysRead fd (length buffer)) st in
      if isize = -1 then
        (if read_errno r = EAGAIN \<or> read_errno r = EWOULDBLOCK then Go st1 else Ret 1 st1)
      else if isize = 0 then Go (emit (SysClose fd) st1)
      else
        (case echo fd buffer' st1 of
           Go st2 \<Rightarrow> et_drain st2 fd buffer' rs
         | x \<Rightarrow> x))"

text \<open>Lines 121-192: the body of the dispatch loop for the entry \<^verbatim>\<open>events[i]\<close>.\<close>

definition et_body :: "epoll_state \<Rightarrow> epoll_event \<Rightarrow> os_reply \<Rightarrow> epoll_state flow" where
  "et_body st e r =
     (if e_events e AND EPOLLERR \<noteq> 0 \<or> e_events e AND EPOLLHUP \<noteq> 0
         \<or> \<not> e_events e AND EPOLLIN \<noteq> 0
      then Go (emit (SysClose (data_fd e)) st)
      else if data_fd e = listensock st then et_accept st r
      else et_drain st (data_fd e) (zero_buffer 5) (read_rets r))"

text \<open>Lines 119-193: \<^verbatim>\<open>for (int i = 0; i < readyfds; i++)\<close>.\<close>

function et_for ::
  "epoll_state \<Rightarrow> int \<Rightarrow> (nat \<Rightarrow> epoll_event) \<Rightarrow> (int \<Rightarrow> os_reply) \<Rightarrow> int \<Rightarrow> epoll_state flow"
  where
  "et_for st readyfds events env i =
     (if i < readyfds then
        (if \<not> (0 \<le> i \<and> i < MAXEVENTS) then Undefined (EventsRange i) st
         else
           (case et_body st (events (nat i)) (env i) of
              Go st' \<Rightarrow> et_for st' readyfds events env (i + 1)
            | r \<Rightarrow> r))
      else Go st)"
  by pat_completeness auto
termination
  by (relation "measure (\<lambda>(st, readyfds, events, env, i). nat (readyfds - i))") auto

declare et_for.simps [simp del]

text \<open>Lines 94-199: \<^verbatim>\<open>while (1)\<close>, and after it \<^verbatim>\<open>close(epollfd); return 0;\<close>.\<close>

fun et_loop ::
  "epoll_state \<Rightarrow> (nat \<Rightarrow> epoll_event) wait_reply list \<Rightarrow> epoll_state flow" where
  "et_loop st [] = Running st"
| "et_loop st (w # ws) =
     (let readyfds = wait_ret w;
          st1 = emit (SysEpollWait (epollfd st)) st in
      if readyfds = -1 then Ret 0 (emit (SysClose (epollfd st1)) st1)
      else
        (case et_for st1 readyfds (report w) (replies w) 0 of
           Go st2 \<Rightarrow> et_loop st2 ws
         | r \<Rightarrow> r))"

text \<open>Lines 46-92; \<open>lr\<close> holds the replies to \<^verbatim>\<open>set_nonblocking(listensock)\<close>.\<close>

definition et_init :: "int \<Rightarrow> os_reply \<Rightarrow> int \<Rightarrow> action list \<Rightarrow> epoll_state" where
  "et_init sock lr epfd tr =
     (let st0 = set_nonblocking sock lr
                  \<lparr>listensock = sock, trace = tr, epollfd = epfd,
                   ev = \<lparr>e_events = EPOLLIN OR EPOLLET, data_fd = sock\<rparr>\<rparr> in
      emit (SysEpollCtlAdd epfd sock (EPOLLIN OR EPOLLET)) (emit (SysEpollCreate epfd) st0))"

definition et_main ::
  "int \<Rightarrow> init_reply \<Rightarrow> os_reply \<Rightarrow> int \<Rightarrow> (nat \<Rightarrow> epoll_event) wait_reply list
     \<Rightarrow> action list flow" where
  "et_main argc ir lr epfd script =
     (if argc \<noteq> 2 then Ret (-1) []
      else
        let (sock, tr) = initserver ir in
        if sock < 0 then Ret (-1) tr
        else map_flow trace (et_loop (et_init sock lr epfd tr) script))"

subsection \<open>Reading a result off a flow; concrete replies\<close>

fun flow_state :: "'s flow \<Rightarrow> 's" where
  "flow_state (Go s) = s"
| "flow_state (Ret c s) = s"
| "flow_state (Undefined f s) = s"
| "flow_state (Running s) = s"

text \<open>The value \<^verbatim>\<open>main\<close> returns, when it returns.\<close>

fun exit_status :: "'s flow \<Rightarrow> int option" where
  "exit_status (Ret c s) = Some c"
| "exit_status (Go s) = None"
| "exit_status (Undefined f s) = None"
| "exit_status (Running s) = None"

text \<open>The undefined behaviour a piece of \<^verbatim>\<open>main\<close> runs into, if any.\<close>

fun fault_of :: "'s flow \<Rightarrow> fault option" where
  "fault_of (Undefined f s) = Some f"
| "fault_of (Go s) = None"
| "fault_of (Ret c s) = None"
| "fault_of (Running s) = None"

text \<open>Replies for entries that make no system call, and an entry on which \<^verbatim>\<open>epoll\<close>
  reports a hangup only.\<close>

definition no_reply :: os_reply where
  "no_reply = \<lparr>accept_ret = -1, read_ret = ReadEof, read_rets = [], getfl_ret = 0, setfl_ret = 0\<rparr>"

definition hangup_event :: epoll_event where
  "hangup_event = \<lparr>e_events = EPOLLHUP, data_fd = 5\<rparr>"

text \<open>The descriptors for which the \<^verbatim>\<open>pfds\<close> array asks \<^verbatim>\<open>poll\<close> to report input.\<close>

definition poll_watched :: "poll_state \<Rightarrow> int set" where
  "poll_watched st =
     (\<lambda>i. p_fd (pfds st (nat i))) `
       Set.filter (\<lambda>i. 0 \<le> p_fd (pfds st (nat i)) \<and> p_events (pfds st (nat i)) AND POLLIN \<noteq> 0)
         {0..<MAXNFDS}"

definition always :: "os_reply \<Rightarrow> int \<Rightarrow> os_reply" where
  "always r i = r"

definition pollin_at :: "nat \<Rightarrow> nat \<Rightarrow> 16 word" where
  "pollin_at k i = (if i = k then POLLIN else 0)"

text \<open>A run of the poll server that listens on descriptor 3 while descriptor 4 is in use
  elsewhere in the process: \<^verbatim>\<open>accept\<close> returns 5, then the client on 5 closes.\<close>

definition poll_gap_script :: "(nat \<Rightarrow> 16 word) wait_reply list" where
  "poll_gap_script =
     [\<lparr>wait_ret = 1, report = pollin_at 3, replies = always (no_reply\<lparr>accept_ret := 5\<rparr>)\<rparr>,
      \<lparr>wait_ret = 1, report = pollin_at 5, replies = always no_reply\<rparr>]"

text \<open>A run of the poll server in which \<^verbatim>\<open>accept\<close> returns descriptor 1024.\<close>

definition capacity_script :: "(nat \<Rightarrow> 16 word) wait_reply list" where
  "capacity_script =
     [\<lparr>wait_ret = 1, report = pollin_at 3, replies = always (no_reply\<lparr>accept_ret := 1024\<rparr>)\<rparr>]"

text \<open>A run of the select server started with standard input closed, so that the
  listening socket is descriptor 0: \<^verbatim>\<open>accept\<close> returns 3, then the client on 3 closes.\<close>

definition select_stdin_closed_script :: "int set wait_reply list" where
  "select_stdin_closed_script =
     [\<lparr>wait_ret = 1, report = {0}, replies = always (no_reply\<lparr>accept_ret := 3\<rparr>)\<rparr>,
      \<lparr>wait_ret = 1, report = {3}, replies = always no_reply\<rparr>]"

text \<open>The array \<^verbatim>\<open>events\<close> after an \<^verbatim>\<open>epoll_wait\<close> that returns 1: entry 0 reports input
  on descriptor 5; the entries behind it still name descriptor 6, from an earlier turn of
  the loop.\<close>

definition stale_events :: "nat \<Rightarrow> epoll_event" where
  "stale_events i =
     (if i = 0 then \<lparr>e_events = EPOLLIN, data_fd = 5\<rparr> else \<lparr>e_events = EPOLLIN, data_fd = 6\<rparr>)"

definition stale_entry_script :: "(nat \<Rightarrow> epoll_event) wait_reply list" where
  "stale_entry_script =
     [\<lparr>wait_ret = 1, report = stale_events,
       replies = always (no_reply\<lparr>read_ret := ReadData [0x68, 0x69]\<rparr>)\<rparr>]"

text \<open>Whether a piece of \<^verbatim>\<open>main\<close> ends with the loops still going.\<close>

fun continues :: "'s flow \<Rightarrow> bool" where
  "continues (Go s) = True"
| "continues (Ret c s) = False"
| "continues (Undefined f s) = False"
| "continues (Running s) = False"

text \<open>Trace predicates.  A system call that uses a descriptor as an open handle; a
  call that hands out a descriptor; whether a descriptor, once closed, is used again
  before the system hands the same number out anew; an \<^verbatim>\<open>fcntl(F_SETFL)\<close> that sets
  \<^verbatim>\<open>O_NONBLOCK\<close> on a descriptor.\<close>

fun acts_on :: "action \<Rightarrow> int \<Rightarrow> bool" where
  "acts_on (SysRead f n) fd = (f = fd)"
| "acts_on (SysWrite f bs) fd = (f = fd)"
| "acts_on (SysClose f) fd = (f = fd)"
| "acts_on (SysEpollCtlAdd ep f m) fd = (f = fd)"
| "acts_on (SysEpollCtlDel ep f) fd = (f = fd)"
| "acts_on (SysFcntlGetfl f) fd = (f = fd)"
| "acts_on (SysFcntlSetfl f fl) fd = (f = fd)"
| "acts_on a fd = False"

fun reopens :: "action \<Rightarrow> int \<Rightarrow> bool" where
  "reopens (SysAccept ls c) fd = (c = fd)"
| "reopens (SysSocket s) fd = (s = fd)"
| "reopens (SysEpollCreate ep) fd = (ep = fd)"
| "reopens a fd = False"

fun acted_before_reopen :: "action list \<Rightarrow> int \<Rightarrow> bool" where
  "acted_before_reopen [] fd = False"
| "acted_before_reopen (a # as) fd =
     (if reopens a fd then False else if acts_on a fd then True else acted_before_reopen as fd)"

fun acts_on_closed :: "action list \<Rightarrow> int \<Rightarrow> bool" where
  "acts_on_closed [] fd = False"
| "acts_on_closed (a # as) fd =
     (if a = SysClose fd \<and> acted_before_reopen as fd then True else acts_on_closed as fd)"

fun sets_nonblocking :: "action \<Rightarrow> int \<Rightarrow> bool" where
  "sets_nonblocking (SysFcntlSetfl f flags) fd = (f = fd \<and> flags AND O_NONBLOCK \<noteq> 0)"
| "sets_nonblocking a fd = False"

definition made_nonblocking :: "action list \<Rightarrow> int \<Rightarrow> bool" where
  "made_nonblocking tr fd = list_ex (\<lambda>a. sets_nonblocking a fd) tr"


text \<open>Concrete states and replies: a select server with two clients; a listener set up
  without error; wait calls that fail; a connection accepted on descriptor 5 by the
  edge-triggered server and then reset by the peer.\<close>

definition three_sockets :: select_state where
  "three_sockets = \<lparr>listensock = 3, trace = [], maxfd = 5, fdset = {3, 4, 5}\<rparr>"

definition ok_init :: init_reply where
  "ok_init = \<lparr>socket_ret = 3, bind_ret = 0, listen_ret = 0\<rparr>"




definition listener_ready :: "nat \<Rightarrow> epoll_event" where
  "listener_ready i = \<lparr>e_events = EPOLLIN, data_fd = 3\<rparr>"

definition client_ready :: "nat \<Rightarrow> epoll_event" where
  "client_ready i = \<lparr>e_events = EPOLLIN, data_fd = 5\<rparr>"

definition ECONNRESET :: int where
  "ECONNRESET = 104"

definition conn_reset_script :: "(nat \<Rightarrow> epoll_event) wait_reply list" where
  "conn_reset_script =
     [\<lparr>wait_ret = 1, report = listener_ready, replies = always (no_reply\<lparr>accept_ret := 5\<rparr>)\<rparr>,
      \<lparr>wait_ret = 1, report = client_ready,
       replies = always (no_reply\<lparr>read_rets := [ReadErr ECONNRESET]\<rparr>)\<rparr>]"

definition client5_reply :: os_reply where
  "client5_reply = \<lparr>accept_ret = 5, read_ret = ReadEof, read_rets = [], getfl_ret = 2, setfl_ret = 0\<rparr>"

text \<open>A run of the level-triggered epoll server.  Clients are accepted on descriptors
  5 and 6; a turn of the loop reports input on both, which leaves \<^verbatim>\<open>events[1]\<close> naming
  descriptor 6; the next turn reports one event, the end of stream on 6, in
  \<^verbatim>\<open>events[0]\<close>.  A \<^verbatim>\<open>read\<close> on the descriptor closed by then fails with \<^verbatim>\<open>EBADF\<close>.\<close>

definition EBADF :: int where
  "EBADF = 9"

definition unused_entry :: epoll_event where
  "unused_entry = \<lparr>e_events = 0, data_fd = 0\<rparr>"

definition listener_only :: "nat \<Rightarrow> epoll_event" where
  "listener_only i = (if i = 0 then \<lparr>e_events = EPOLLIN, data_fd = 3\<rparr> else unused_entry)"

definition both_clients :: "nat \<Rightarrow> epoll_event" where
  "both_clients i =
     (if i = 0 then \<lparr>e_events = EPOLLIN, data_fd = 5\<rparr>
      else if i = 1 then \<lparr>e_events = EPOLLIN, data_fd = 6\<rparr>
      else unused_entry)"

definition client6_over_stale :: "nat \<Rightarrow> epoll_event" where
  "client6_over_stale i =
     (if i = 0 then \<lparr>e_events = EPOLLIN, data_fd = 6\<rparr> else both_clients i)"

definition eof_then_ebadf :: "int \<Rightarrow> os_reply" where
  "eof_then_ebadf i =
     (if i = 0 then no_reply\<lparr>read_ret := ReadEof\<rparr> else no_reply\<lparr>read_ret := ReadErr EBADF\<rparr>)"

definition stale_close_script :: "(nat \<Rightarrow> epoll_event) wait_reply list" where
  "stale_close_script =
     [\<lparr>wait_ret = 1, report = listener_only, replies = always (no_reply\<lparr>accept_ret := 5\<rparr>)\<rparr>,
      \<lparr>wait_ret = 1, report = listener_only, replies = always (no_reply\<lparr>accept_ret := 6\<rparr>)\<rparr>,
      \<lparr>wait_ret = 2, report = both_clients,
       replies = always (no_reply\<lparr>read_ret := ReadData [0x68, 0x69]\<rparr>)\<rparr>,
      \<lparr>wait_ret = 1, report = client6_over_stale, replies = eof_then_ebadf\<rparr>]"

text \<open>The intended relation between \<^verbatim>\<open>maxfd\<close> and \<^verbatim>\<open>set\<close> in the select server, for
  a listening socket other than descriptor 0.\<close>

definition select_inv :: "select_state \<Rightarrow> bool" where
  "select_inv st \<longleftrightarrow>
     0 < listensock st \<and> listensock st \<in> fdset st \<and> maxfd st \<in> fdset st
     \<and> (\<forall>fd\<in>fdset st. fd \<le> maxfd st)"

section \<open>The claims\<close>

text \<open>
  C1 (the code departs from the claim).  A client writes the three bytes \<open>0x61 0x00 0x62\<close>.
  Each server reads them into its zeroed buffer and then writes \<^verbatim>\<open>strlen(buffer)\<close> bytes,
  which is one byte: the NUL and everything after it are not echoed, so the echoed
  sequence is not the sequence the client wrote.  And when a \<^verbatim>\<open>read\<close> fills the whole
  buffer with 1024 bytes none of which is NUL, \<^verbatim>\<open>strlen\<close> runs off the array.
\<close>

theorem echo_truncates_at_NUL:
  "select_client st 5 (ReadData [0x61, 0, 0x62])
     = Go (emit (SysWrite 5 [0x61]) (emit (SysRead 5 1024) st))
   \<and> poll_client pst 5 (ReadData [0x61, 0, 0x62])
     = Go (emit (SysWrite 5 [0x61]) (emit (SysRead 5 1024) pst))
   \<and> epoll_client est 5 (ReadData [0x61, 0, 0x62])
     = Go (emit (SysWrite 5 [0x61]) (emit (SysRead 5 1024) est))
   \<and> et_drain est 5 (zero_buffer 5) [ReadData [0x61, 0, 0x62], ReadErr EAGAIN]
     = Go (emit (SysRead 5 5) (emit (SysWrite 5 [0x61]) (emit (SysRead 5 5) est)))
   \<and> select_client st 5 (ReadData (replicate 1024 0x61))
     = Undefined StrlenOverread (emit (SysRead 5 1024) st)"
  by (simp add: select_client_def poll_client_def epoll_client_def sys_read_def zero_buffer_def
      echo_def c_strlen_def read_errno_def EAGAIN_def Let_def)

text \<open>
  C2 (the code departs from the claim).  Seven bytes are pending on an edge-triggered
  client.  With the bytes \<open>hello\<close>, \<open>ab\<close> the first \<^verbatim>\<open>read\<close> fills the five-byte buffer, no
  NUL is left in it and \<^verbatim>\<open>strlen\<close> runs off the array.  With the bytes \<open>abcd\<close>, NUL, \<open>ef\<close>
  the drain loop does read everything up to \<^verbatim>\<open>EAGAIN\<close>, but it echoes \<open>abcd\<close> and then
  \<open>efcd\<close>: the buffer is zeroed once, before the loop, and the second, shorter \<^verbatim>\<open>read\<close>
  leaves the tail of the first in place.
\<close>

theorem et_drain_burst_not_echoed:
  "et_drain st 5 (zero_buffer 5)
       [ReadData [0x68, 0x65, 0x6c, 0x6c, 0x6f], ReadData [0x61, 0x62], ReadErr EAGAIN]
     = Undefined StrlenOverread (emit (SysRead 5 5) st)
   \<and> et_drain st 5 (zero_buffer 5)
       [ReadData [0x61, 0x62, 0x63, 0x64, 0], ReadData [0x65, 0x66], ReadErr EAGAIN]
     = Go (emit (SysRead 5 5)
            (emit (SysWrite 5 [0x65, 0x66, 0x63, 0x64])
              (emit (SysRead 5 5)
                (emit (SysWrite 5 [0x61, 0x62, 0x63, 0x64])
                  (emit (SysRead 5 5) st)))))"
  by (simp add: sys_read_def zero_buffer_def echo_def c_strlen_def read_errno_def EAGAIN_def
      Let_def)

text \<open>
  C6 (the code departs from the claim).  The guard of the poll server is
  \<^verbatim>\<open>clientsock > MAXNFDS\<close>.  A client descriptor above \<^verbatim>\<open>MAXNFDS\<close> = 1024 is closed at
  once, but the descriptor 1024 itself passes the guard: the server goes on to store into
  \<^verbatim>\<open>pfds[1024]\<close>, one entry past the array.
\<close>

theorem poll_accept_at_capacity_out_of_bounds:
  "poll_accept st 1024 = Undefined (PfdsRange 1024) (emit (SysAccept (listensock st) 1024) st)
   \<and> fault_of (poll_loop (poll_init 3 []) capacity_script) = Some (PfdsRange 1024)
   \<and> poll_accept st 1025
        = Go (emit (SysClose 1025) (emit (SysAccept (listensock st) 1025) st))"
proof -
  have "fault_of (poll_loop (poll_init 3 []) capacity_script) = Some (PfdsRange 1024)"
    by (simp add: capacity_script_def poll_init_def Let_def poll_for.simps poll_body_def
        MAXNFDS_def sys_poll_def pollin_at_def always_def POLLIN_def no_reply_def
        poll_accept_def emit_def)
  then show ?thesis
    by (simp add: poll_accept_def MAXNFDS_def Let_def)
qed

text \<open>
  C10.  In the level-triggered epoll server, an entry whose flags do not include
  \<^verbatim>\<open>EPOLLIN\<close> takes neither branch of the dispatch: the body ends with the state it
  began with, trace included, so no \<^verbatim>\<open>read\<close>, \<^verbatim>\<open>write\<close>, \<^verbatim>\<open>close\<close> or \<^verbatim>\<open>epoll_ctl\<close> is
  issued and no variable changes.
\<close>

theorem epoll_body_without_EPOLLIN_is_skip:
  "e_events e AND EPOLLIN = 0 \<Longrightarrow> epoll_body st e r = Go st"
  by (simp add: epoll_body_def)

theorem epoll_body_without_EPOLLIN_is_skip_witness:
  "e_events hangup_event AND EPOLLIN = 0
   \<and> epoll_body (epoll_init 3 4 []) hangup_event no_reply = Go (epoll_init 3 4 [])"
  using epoll_body_without_EPOLLIN_is_skip [of hangup_event "epoll_init 3 4 []" no_reply]
  by (simp add: hangup_event_def EPOLLHUP_def EPOLLIN_def)

text \<open>The \<^verbatim>\<open>pfds\<close> array at the end of the run \<open>poll_gap_script\<close>: entry 4 was never
  used and still holds the zeroes of \<^verbatim>\<open>memset\<close>.\<close>

lemma poll_gap_pfds:
  "pfds (flow_state (poll_loop (poll_init 3 []) poll_gap_script)) i =
     (if i = 3 then \<lparr>p_fd = 3, p_events = POLLIN, p_revents = 0\<rparr>
      else if i = 5 then \<lparr>p_fd = -1, p_events = POLLIN, p_revents = 0\<rparr>
      else \<lparr>p_fd = 0, p_events = 0, p_revents = 0\<rparr>)"
  by (simp add: poll_gap_script_def poll_init_def Let_def poll_for.simps poll_body_def
      MAXNFDS_def sys_poll_def pollin_at_def always_def POLLIN_def no_reply_def poll_accept_def
      poll_client_def sys_read_def zero_buffer_def emit_def scan_maxfd.simps)

lemma poll_gap_watched:
  "poll_watched (flow_state (poll_loop (poll_init 3 []) poll_gap_script)) = {3}"
proof
  show "poll_watched (flow_state (poll_loop (poll_init 3 []) poll_gap_script)) \<subseteq> {3}"
    unfolding poll_watched_def poll_gap_pfds
    by (auto simp: MAXNFDS_def POLLIN_def split: if_splits)
  have "3 \<in> poll_watched (flow_state (poll_loop (poll_init 3 []) poll_gap_script))"
    unfolding poll_watched_def poll_gap_pfds
    by (rule image_eqI [where x = 3]) (simp_all add: MAXNFDS_def POLLIN_def)
  then show "{3} \<subseteq> poll_watched (flow_state (poll_loop (poll_init 3 []) poll_gap_script))"
    by simp
qed

text \<open>
  C3 (the code departs from the claim).  In the poll server the array is zeroed by
  \<^verbatim>\<open>memset\<close>, while the downward scan takes every entry whose \<^verbatim>\<open>fd\<close> is not \<^verbatim>\<open>-1\<close> for a
  registered one: after the run \<open>poll_gap_script\<close> only the listening socket 3 is
  watched, and \<^verbatim>\<open>maxfd\<close> is 4.  In the select server the scan stops above descriptor 0:
  after the run \<open>select_stdin_closed_script\<close> only the listening socket 0 is in the
  set, and \<^verbatim>\<open>maxfd\<close> is still 3.
\<close>

theorem maxfd_not_greatest_after_close:
  "maxfd (flow_state (poll_loop (poll_init 3 []) poll_gap_script)) = 4
   \<and> poll_watched (flow_state (poll_loop (poll_init 3 []) poll_gap_script)) = {3}
   \<and> maxfd (flow_state (select_loop (select_init 0 []) select_stdin_closed_script)) = 3
   \<and> fdset (flow_state (select_loop (select_init 0 []) select_stdin_closed_script)) = {0}"
proof -
  have "maxfd (flow_state (poll_loop (poll_init 3 []) poll_gap_script)) = 4"
    by (simp add: poll_gap_script_def poll_init_def Let_def poll_for.simps poll_body_def
        MAXNFDS_def sys_poll_def pollin_at_def always_def POLLIN_def no_reply_def
        poll_accept_def poll_client_def sys_read_def zero_buffer_def emit_def scan_maxfd.simps)
  moreover
  have "maxfd (flow_state (select_loop (select_init 0 []) select_stdin_closed_script)) = 3"
    by (simp add: select_stdin_closed_script_def select_init_def Let_def select_for.simps
        select_body_def FD_SETSIZE_def always_def no_reply_def select_accept_def
        select_client_def sys_read_def zero_buffer_def emit_def scan_maxfd.simps)
  moreover
  have "fdset (flow_state (select_loop (select_init 0 []) select_stdin_closed_script)) = {0}"
    by (simp add: select_stdin_closed_script_def select_init_def Let_def select_for.simps
        select_body_def FD_SETSIZE_def always_def no_reply_def select_accept_def
        select_client_def sys_read_def zero_buffer_def emit_def scan_maxfd.simps)
  ultimately show ?thesis
    using poll_gap_watched by simp
qed

text \<open>
  C7 (the code departs from the claim).  The dispatch loop of the level-triggered epoll
  server runs while \<^verbatim>\<open>i <= readyfds\<close>.  When \<^verbatim>\<open>epoll_wait\<close> reports one event, on
  descriptor 5, the loop also examines \<^verbatim>\<open>events[1]\<close>, which the kernel has not written,
  and reads from and writes to the descriptor 6 found there.  When \<^verbatim>\<open>epoll_wait\<close>
  reports \<^verbatim>\<open>MAXEVENTS\<close> events the last turn of the loop indexes \<^verbatim>\<open>events[MAXEVENTS]\<close>.
\<close>

theorem epoll_for_examines_entry_beyond_report:
  "trace (flow_state (epoll_loop (epoll_init 3 4 []) stale_entry_script))
     = [SysEpollCreate 4, SysEpollCtlAdd 4 3 EPOLLIN, SysEpollWait 4,
        SysRead 5 1024, SysWrite 5 [0x68, 0x69],
        SysRead 6 1024, SysWrite 6 [0x68, 0x69]]
   \<and> epoll_for st MAXEVENTS events env MAXEVENTS = Undefined (EventsRange MAXEVENTS) st"
proof -
  have "trace (flow_state (epoll_loop (epoll_init 3 4 []) stale_entry_script))
     = [SysEpollCreate 4, SysEpollCtlAdd 4 3 EPOLLIN, SysEpollWait 4,
        SysRead 5 1024, SysWrite 5 [0x68, 0x69],
        SysRead 6 1024, SysWrite 6 [0x68, 0x69]]"
    by (simp add: stale_entry_script_def stale_events_def epoll_init_def Let_def
        epoll_for.simps epoll_body_def MAXEVENTS_def EPOLLIN_def always_def no_reply_def
        epoll_client_def sys_read_def zero_buffer_def echo_def c_strlen_def emit_def)
  moreover
  have "epoll_for st MAXEVENTS events env MAXEVENTS = Undefined (EventsRange MAXEVENTS) st"
    by (subst epoll_for.simps) (simp add: MAXEVENTS_def)
  ultimately show ?thesis by simp
qed

subsection \<open>What main returns\<close>

lemma exit_status_map_flow [simp]: "exit_status (map_flow f x) = exit_status x"
  by (cases x) simp_all






lemma fst_initserver_neg: "fst (initserver ir) < 0 \<longleftrightarrow> fst (initserver ir) = -1"
  by (auto simp: initserver_def Let_def)


















lemma et_conn_reset_run: "exit_status (et_main 2 ok_init no_reply 4 conn_reset_script) = Some 1"
  by (simp add: et_main_def ok_init_def initserver_def conn_reset_script_def et_init_def
      set_nonblocking_def no_reply_def Let_def et_for.simps et_body_def et_accept_def
      MAXEVENTS_def listener_ready_def client_ready_def EPOLLIN_def EPOLLERR_def EPOLLHUP_def
      always_def sys_read_def read_errno_def zero_buffer_def ECONNRESET_def EAGAIN_def
      EWOULDBLOCK_def emit_def)




subsection \<open>The end of a connection, and its beginning\<close>

lemma select_client_closed:
  assumes "r = ReadEof \<or> r = ReadErr e"
  shows "continues (select_client st fd r)"
    and "trace (flow_state (select_client st fd r)) = trace st @ [SysRead fd 1024, SysClose fd, FdClr fd]"
    and "fdset (flow_state (select_client st fd r)) = fdset st - {fd}"
    and "listensock (flow_state (select_client st fd r)) = listensock st"
  using assms by (auto simp: select_client_def sys_read_def Let_def split: if_splits)

lemma poll_client_closed:
  assumes "r = ReadEof \<or> r = ReadErr e"
  shows "continues (poll_client st fd r)"
    and "trace (flow_state (poll_client st fd r)) = trace st @ [SysRead fd 1024, SysClose fd, PfdsInvalidate fd]"
    and "pfds (flow_state (poll_client st fd r)) = (pfds st)(nat fd := (pfds st (nat fd))\<lparr>p_fd := -1\<rparr>)"
    and "listensock (flow_state (poll_client st fd r)) = listensock st"
  using assms by (auto simp: poll_client_def sys_read_def Let_def split: if_splits)

lemma epoll_client_closed:
  assumes "r = ReadEof \<or> r = ReadErr e"
  shows "continues (epoll_client st fd r)"
    and "trace (flow_state (epoll_client st fd r))
          = trace st @ [SysRead fd 1024, SysEpollCtlDel (epollfd st) fd, SysClose fd]"
    and "listensock (flow_state (epoll_client st fd r)) = listensock st"
    and "epollfd (flow_state (epoll_client st fd r)) = epollfd st"
  using assms by (auto simp: epoll_client_def sys_read_def Let_def)

lemma et_body_flags:
  assumes "e_events e AND EPOLLERR \<noteq> 0 \<or> e_events e AND EPOLLHUP \<noteq> 0 \<or> e_events e AND EPOLLIN = 0"
  shows "et_body st e r = Go (emit (SysClose (data_fd e)) st)"
  using assms by (auto simp: et_body_def)

lemma et_drain_eof:
  "et_drain st fd buffer (ReadEof # rs) = Go (emit (SysClose fd) (emit (SysRead fd (length buffer)) st))"
  by (simp add: sys_read_def Let_def)

lemma et_drain_would_block:
  "e = EAGAIN \<or> e = EWOULDBLOCK \<Longrightarrow> et_drain st fd buffer (ReadErr e # rs) = Go (emit (SysRead fd (length buffer)) st)"
  by (auto simp add: sys_read_def Let_def read_errno_def)

lemma et_drain_read_error:
  "e \<noteq> EAGAIN \<Longrightarrow> e \<noteq> EWOULDBLOCK \<Longrightarrow>
   et_drain st fd buffer (ReadErr e # rs) = Ret 1 (emit (SysRead fd (length buffer)) st)"
  by (simp add: sys_read_def Let_def read_errno_def)

lemma select_accept_ok:
  assumes "0 \<le> c" "c < FD_SETSIZE"
  shows "continues (select_accept st c)"
    and "trace (flow_state (select_accept st c)) = trace st @ [SysAccept (listensock st) c, FdSet c]"
  using assms by (auto simp: select_accept_def Let_def)

lemma poll_accept_ok:
  assumes "0 \<le> c" "c < MAXNFDS"
  shows "continues (poll_accept st c)"
    and "trace (flow_state (poll_accept st c)) = trace st @ [SysAccept (listensock st) c, PfdsRegister c]"
  using assms by (auto simp: poll_accept_def Let_def)

lemma epoll_accept_ok:
  assumes "0 \<le> c"
  shows "continues (epoll_accept st c)"
    and "trace (flow_state (epoll_accept st c))
           = trace st @ [SysAccept (listensock st) c, SysEpollCtlAdd (epollfd st) c EPOLLIN]"
  using assms by (auto simp: epoll_accept_def Let_def)

lemma et_accept_ok:
  assumes "0 \<le> accept_ret r"
  shows "continues (et_accept st r)"
    and "getfl_ret r \<noteq> -1 \<Longrightarrow> trace (flow_state (et_accept st r))
           = trace st @ [SysAccept (listensock st) (accept_ret r), SysFcntlGetfl (accept_ret r),
                SysFcntlSetfl (accept_ret r) (getfl_ret r OR O_NONBLOCK),
                SysEpollCtlAdd (epollfd st) (accept_ret r) (EPOLLIN OR EPOLLET)]"
    and "getfl_ret r = -1 \<Longrightarrow> trace (flow_state (et_accept st r))
           = trace st @ [SysAccept (listensock st) (accept_ret r), SysFcntlGetfl (accept_ret r),
                SysEpollCtlAdd (epollfd st) (accept_ret r) (EPOLLIN OR EPOLLET)]"
  using assms by (auto simp: et_accept_def set_nonblocking_def Let_def)

lemma listener_armed:
  "last (trace (epoll_init sock epfd tr)) = SysEpollCtlAdd epfd sock EPOLLIN"
  "last (trace (et_init sock lr epfd tr)) = SysEpollCtlAdd epfd sock (EPOLLIN OR EPOLLET)"
  by (simp_all add: epoll_init_def et_init_def)

lemma or_and_absorb_int: "(a OR b) AND b = (b::int)"
  by (simp add: bit_eq_iff bit_simps) blast

lemma et_accept_made_nonblocking:
  "0 \<le> accept_ret r \<Longrightarrow> getfl_ret r \<noteq> -1 \<Longrightarrow>
     made_nonblocking (trace (flow_state (et_accept st r))) (accept_ret r)"
  by (simp add: et_accept_ok(2) made_nonblocking_def or_and_absorb_int O_NONBLOCK_def)

text \<open>What each handler does when a connection ends.  When \<^verbatim>\<open>read\<close> on a client returns
  0 or fails, the select, poll and level-triggered epoll servers close that descriptor,
  take only it out of the watched set and go on with the dispatch loop.  The
  edge-triggered server does the same when the event carries \<^verbatim>\<open>EPOLLERR\<close> or
  \<^verbatim>\<open>EPOLLHUP\<close> or lacks \<^verbatim>\<open>EPOLLIN\<close>, and when \<^verbatim>\<open>read\<close> returns 0, but on a read error
  other than \<^verbatim>\<open>EAGAIN\<close>/\<^verbatim>\<open>EWOULDBLOCK\<close> it leaves \<^verbatim>\<open>main\<close> with \<^verbatim>\<open>return 1\<close>.\<close>

lemma connection_end_is_local:
  "(r = ReadEof \<or> r = ReadErr e \<longrightarrow>
      continues (select_client sst fd r)
      \<and> trace (flow_state (select_client sst fd r))
          = trace sst @ [SysRead fd 1024, SysClose fd, FdClr fd]
      \<and> fdset (flow_state (select_client sst fd r)) = fdset sst - {fd}
      \<and> continues (poll_client pst fd r)
      \<and> trace (flow_state (poll_client pst fd r))
          = trace pst @ [SysRead fd 1024, SysClose fd, PfdsInvalidate fd]
      \<and> pfds (flow_state (poll_client pst fd r))
          = (pfds pst)(nat fd := (pfds pst (nat fd))\<lparr>p_fd := -1\<rparr>)
      \<and> continues (epoll_client est fd r)
      \<and> trace (flow_state (epoll_client est fd r))
          = trace est @ [SysRead fd 1024, SysEpollCtlDel (epollfd est) fd, SysClose fd])
   \<and> (e_events evt AND EPOLLERR \<noteq> 0 \<or> e_events evt AND EPOLLHUP \<noteq> 0
        \<or> e_events evt AND EPOLLIN = 0 \<longrightarrow>
      et_body est evt osr = Go (emit (SysClose (data_fd evt)) est))
   \<and> et_drain est fd buffer (ReadEof # rs)
        = Go (emit (SysClose fd) (emit (SysRead fd (length buffer)) est))
   \<and> (e \<noteq> EAGAIN \<and> e \<noteq> EWOULDBLOCK \<longrightarrow>
      et_drain est fd buffer (ReadErr e # rs) = Ret 1 (emit (SysRead fd (length buffer)) est))"
  using select_client_closed [of r e sst fd] poll_client_closed [of r e pst fd]
    epoll_client_closed [of r e est fd] et_body_flags [of evt est osr]
    et_drain_eof [of est fd buffer rs] et_drain_read_error [of e est fd buffer rs]
  by blast

text \<open>The poll server takes no action on an entry whose \<^verbatim>\<open>revents\<close> lack \<^verbatim>\<open>POLLIN\<close>,
  whatever hangup or error bits they carry.\<close>

lemma poll_body_without_POLLIN_is_skip:
  "0 \<le> eventfd \<Longrightarrow> eventfd < MAXNFDS \<Longrightarrow> p_revents (pfds st (nat eventfd)) AND POLLIN = 0
     \<Longrightarrow> poll_body st r eventfd = Go st"
  by (simp add: poll_body_def Let_def)

text \<open>The run \<open>conn_reset_script\<close> of the edge-triggered server, call by call: the
  last call is the failing \<^verbatim>\<open>read\<close>; neither descriptor 5 nor \<^verbatim>\<open>epollfd\<close> is closed.\<close>

lemma et_conn_reset_trace: "flow_state (et_main 2 ok_init no_reply 4 conn_reset_script)
     = [SysSocket 3, SysSetsockopt 3, SysSetsockopt 3, SysBind 3, SysListen 3,
        SysFcntlGetfl 3, SysFcntlSetfl 3 2048, SysEpollCreate 4,
        SysEpollCtlAdd 4 3 (EPOLLIN OR EPOLLET),
        SysEpollWait 4, SysAccept 3 5, SysFcntlGetfl 5, SysFcntlSetfl 5 2048,
        SysEpollCtlAdd 4 5 (EPOLLIN OR EPOLLET),
        SysEpollWait 4, SysRead 5 5]"
  by (simp add: et_main_def ok_init_def initserver_def conn_reset_script_def et_init_def
      set_nonblocking_def no_reply_def Let_def et_for.simps et_body_def et_accept_def
      MAXEVENTS_def listener_ready_def client_ready_def EPOLLIN_def EPOLLERR_def EPOLLHUP_def
      EPOLLET_def always_def sys_read_def read_errno_def zero_buffer_def ECONNRESET_def EAGAIN_def
      EWOULDBLOCK_def emit_def O_NONBLOCK_def)

text \<open>
  C5 (the code departs from the claim).  The edge-triggered server accepts a client on
  descriptor 5 and the next \<^verbatim>\<open>read\<close> on it fails with \<^verbatim>\<open>ECONNRESET\<close>.  Line 180 answers
  with \<^verbatim>\<open>return 1\<close>: the error of one connection ends the process, the connection itself
  is not closed, and the \<^verbatim>\<open>close(epollfd)\<close> behind the loop is not reached.  The select,
  poll and level-triggered epoll servers close the one connection and go on in the same
  situation, and so does this server at the end of stream and on \<^verbatim>\<open>EPOLLERR\<close>/\<^verbatim>\<open>EPOLLHUP\<close>.
\<close>

theorem read_error_ends_edge_triggered_server:
  "exit_status (et_main 2 ok_init no_reply 4 conn_reset_script) = Some 1
   \<and> flow_state (et_main 2 ok_init no_reply 4 conn_reset_script)
     = [SysSocket 3, SysSetsockopt 3, SysSetsockopt 3, SysBind 3, SysListen 3,
        SysFcntlGetfl 3, SysFcntlSetfl 3 2048, SysEpollCreate 4,
        SysEpollCtlAdd 4 3 (EPOLLIN OR EPOLLET),
        SysEpollWait 4, SysAccept 3 5, SysFcntlGetfl 5, SysFcntlSetfl 5 2048,
        SysEpollCtlAdd 4 5 (EPOLLIN OR EPOLLET),
        SysEpollWait 4, SysRead 5 5]"
  using et_conn_reset_run et_conn_reset_trace by (rule conjI)

text \<open>The order of release and removal.  When a connection is closed after \<^verbatim>\<open>read\<close>
  returned 0 or an error, the two are consecutive actions of one handler: \<^verbatim>\<open>close\<close> and
  then the removal in the select and poll servers, \<^verbatim>\<open>epoll_ctl(EPOLL_CTL_DEL)\<close> and then
  \<^verbatim>\<open>close\<close> in the level-triggered epoll server.  The edge-triggered server calls
  \<^verbatim>\<open>close\<close> only.\<close>

lemma close_and_deregister_adjacent:
  "(r = ReadEof \<or> r = ReadErr e \<longrightarrow>
      trace (flow_state (select_client sst fd r))
        = trace sst @ [SysRead fd 1024, SysClose fd, FdClr fd]
      \<and> trace (flow_state (poll_client pst fd r))
        = trace pst @ [SysRead fd 1024, SysClose fd, PfdsInvalidate fd]
      \<and> trace (flow_state (epoll_client est fd r))
        = trace est @ [SysRead fd 1024, SysEpollCtlDel (epollfd est) fd, SysClose fd])
   \<and> trace (flow_state (et_drain est fd buffer (ReadEof # rs)))
        = trace est @ [SysRead fd (length buffer), SysClose fd]
   \<and> (e_events evt AND EPOLLERR \<noteq> 0 \<or> e_events evt AND EPOLLHUP \<noteq> 0
        \<or> e_events evt AND EPOLLIN = 0 \<longrightarrow>
      trace (flow_state (et_body est evt osr)) = trace est @ [SysClose (data_fd evt)])"
  using select_client_closed(2) [of r e sst fd] poll_client_closed(2) [of r e pst fd]
    epoll_client_closed(2) [of r e est fd] et_body_flags [of evt est osr]
    et_drain_eof [of est fd buffer rs]
  by simp

text \<open>The run \<open>stale_close_script\<close> of the level-triggered epoll server, call by
  call.\<close>

lemma stale_close_trace:
  "flow_state (epoll_main 2 ok_init 4 stale_close_script)
     = [SysSocket 3, SysSetsockopt 3, SysSetsockopt 3, SysBind 3, SysListen 3,
        SysEpollCreate 4, SysEpollCtlAdd 4 3 EPOLLIN,
        SysEpollWait 4, SysAccept 3 5, SysEpollCtlAdd 4 5 EPOLLIN,
        SysEpollWait 4, SysAccept 3 6, SysEpollCtlAdd 4 6 EPOLLIN,
        SysEpollWait 4, SysRead 5 1024, SysWrite 5 [0x68, 0x69],
        SysRead 6 1024, SysWrite 6 [0x68, 0x69],
        SysEpollWait 4, SysRead 6 1024, SysEpollCtlDel 4 6, SysClose 6,
        SysRead 6 1024, SysEpollCtlDel 4 6, SysClose 6]"
  by (simp add: epoll_main_def ok_init_def initserver_def stale_close_script_def epoll_init_def
      Let_def epoll_for.simps epoll_body_def epoll_accept_def epoll_client_def MAXEVENTS_def
      listener_only_def both_clients_def client6_over_stale_def unused_entry_def
      eof_then_ebadf_def EPOLLIN_def always_def no_reply_def sys_read_def zero_buffer_def
      echo_def c_strlen_def emit_def)

text \<open>
  C8 (the code departs from the claim).  In the run \<open>stale_close_script\<close> the
  level-triggered epoll server removes descriptor 6 from the watched set and closes it when
  it handles \<^verbatim>\<open>events[0]\<close>.  The dispatch loop runs while \<^verbatim>\<open>i <= readyfds\<close>, so it goes on
  to \<^verbatim>\<open>events[1]\<close>, which still names descriptor 6 from the turn before: the server
  calls \<^verbatim>\<open>read\<close>, \<^verbatim>\<open>epoll_ctl(EPOLL_CTL_DEL)\<close> and \<^verbatim>\<open>close\<close> on the handle it has just
  released.
\<close>

theorem stale_entry_acts_on_closed_handle:
  "flow_state (epoll_main 2 ok_init 4 stale_close_script)
     = [SysSocket 3, SysSetsockopt 3, SysSetsockopt 3, SysBind 3, SysListen 3,
        SysEpollCreate 4, SysEpollCtlAdd 4 3 EPOLLIN,
        SysEpollWait 4, SysAccept 3 5, SysEpollCtlAdd 4 5 EPOLLIN,
        SysEpollWait 4, SysAccept 3 6, SysEpollCtlAdd 4 6 EPOLLIN,
        SysEpollWait 4, SysRead 5 1024, SysWrite 5 [0x68, 0x69],
        SysRead 6 1024, SysWrite 6 [0x68, 0x69],
        SysEpollWait 4, SysRead 6 1024, SysEpollCtlDel 4 6, SysClose 6,
        SysRead 6 1024, SysEpollCtlDel 4 6, SysClose 6]
   \<and> acts_on_closed (flow_state (epoll_main 2 ok_init 4 stale_close_script)) 6"
  using stale_close_trace by simp

text \<open>
  C9, as the claim states it, fails: the select server registers an accepted client on
  descriptor 6 without any \<^verbatim>\<open>fcntl\<close> on it.
\<close>

theorem select_accept_leaves_client_blocking:
  "FdSet 6 \<in> set (trace (flow_state (select_accept three_sockets 6)))
   \<and> \<not> made_nonblocking (trace (flow_state (select_accept three_sockets 6))) 6"
  by (simp add: select_accept_def three_sockets_def Let_def FD_SETSIZE_def made_nonblocking_def)

text \<open>
  C9, amended.  Only the edge-triggered server calls \<^verbatim>\<open>set_nonblocking\<close> on an accepted
  client, before \<^verbatim>\<open>EPOLL_CTL_ADD\<close>: \<^verbatim>\<open>F_GETFL\<close>, then \<^verbatim>\<open>F_SETFL\<close> with \<^verbatim>\<open>O_NONBLOCK\<close> unless
  \<^verbatim>\<open>F_GETFL\<close> failed.  Both epoll servers arm the client with the event mask of the
  listening socket, \<^verbatim>\<open>EPOLLIN | EPOLLET\<close> and \<^verbatim>\<open>EPOLLIN\<close>.  The select, poll and
  level-triggered servers register the client without making it non-blocking.
\<close>

theorem accept_registration:
  "(0 \<le> accept_ret r \<longrightarrow>
      continues (et_accept est r)
      \<and> (getfl_ret r \<noteq> -1 \<longrightarrow>
           trace (flow_state (et_accept est r))
             = trace est @ [SysAccept (listensock est) (accept_ret r),
                 SysFcntlGetfl (accept_ret r),
                 SysFcntlSetfl (accept_ret r) (getfl_ret r OR O_NONBLOCK),
                 SysEpollCtlAdd (epollfd est) (accept_ret r) (EPOLLIN OR EPOLLET)]
           \<and> made_nonblocking (trace (flow_state (et_accept est r))) (accept_ret r))
      \<and> (getfl_ret r = -1 \<longrightarrow>
           trace (flow_state (et_accept est r))
             = trace est @ [SysAccept (listensock est) (accept_ret r),
                 SysFcntlGetfl (accept_ret r),
                 SysEpollCtlAdd (epollfd est) (accept_ret r) (EPOLLIN OR EPOLLET)])
      \<and> trace (flow_state (epoll_accept est (accept_ret r)))
           = trace est @ [SysAccept (listensock est) (accept_ret r),
               SysEpollCtlAdd (epollfd est) (accept_ret r) EPOLLIN])
   \<and> last (trace (et_init sock lr epfd tr)) = SysEpollCtlAdd epfd sock (EPOLLIN OR EPOLLET)
   \<and> last (trace (epoll_init sock epfd tr)) = SysEpollCtlAdd epfd sock EPOLLIN
   \<and> (0 \<le> c \<and> c < FD_SETSIZE \<longrightarrow>
        trace (flow_state (select_accept sst c)) = trace sst @ [SysAccept (listensock sst) c, FdSet c])
   \<and> (0 \<le> c \<and> c < MAXNFDS \<longrightarrow>
        trace (flow_state (poll_accept pst c))
          = trace pst @ [SysAccept (listensock pst) c, PfdsRegister c])"
  using et_accept_ok [of r est] et_accept_made_nonblocking [of r est]
    epoll_accept_ok(2) [of "accept_ret r" est] listener_armed(1) [of sock epfd tr] listener_armed(2) [of sock lr epfd tr]
    select_accept_ok(2) [of c sst] poll_accept_ok(2) [of c pst]
  by simp

theorem accept_registration_witness:
  "trace (flow_state (et_accept (epoll_init 3 4 []) client5_reply))
     = [SysEpollCreate 4, SysEpollCtlAdd 4 3 EPOLLIN, SysAccept 3 5, SysFcntlGetfl 5,
        SysFcntlSetfl 5 2050, SysEpollCtlAdd 4 5 (EPOLLIN OR EPOLLET)]
   \<and> trace (flow_state (select_accept three_sockets 6)) = [SysAccept 3 6, FdSet 6]"
proof -
  note T = accept_registration [where r = client5_reply and est = "epoll_init 3 4 []"
      and sock = 3 and lr = no_reply and epfd = 4 and tr = "[]" and c = 6
      and sst = three_sockets and pst = "poll_init 3 []"]
  have acc: "0 \<le> accept_ret client5_reply" and fl: "getfl_ret client5_reply \<noteq> -1"
    and rng: "(0::int) \<le> 6 \<and> 6 < FD_SETSIZE"
    by (simp_all add: client5_reply_def FD_SETSIZE_def)
  have st: "trace three_sockets = []" "listensock three_sockets = 3"
    "trace (epoll_init 3 4 []) = [SysEpollCreate 4, SysEpollCtlAdd 4 3 EPOLLIN]"
    "epollfd (epoll_init 3 4 []) = 4" "listensock (epoll_init 3 4 []) = 3"
    "accept_ret client5_reply = 5" "getfl_ret client5_reply OR O_NONBLOCK = 2050"
    by (simp_all add: three_sockets_def epoll_init_def client5_reply_def O_NONBLOCK_def)
  from T acc fl have "trace (flow_state (et_accept (epoll_init 3 4 []) client5_reply))
      = trace (epoll_init 3 4 [])
          @ [SysAccept (listensock (epoll_init 3 4 [])) (accept_ret client5_reply),
             SysFcntlGetfl (accept_ret client5_reply),
             SysFcntlSetfl (accept_ret client5_reply) (getfl_ret client5_reply OR O_NONBLOCK),
             SysEpollCtlAdd (epollfd (epoll_init 3 4 [])) (accept_ret client5_reply)
               (EPOLLIN OR EPOLLET)]"
    by blast
  moreover from T rng have "trace (flow_state (select_accept three_sockets 6))
      = trace three_sockets @ [SysAccept (listensock three_sockets) 6, FdSet 6]"
    by blast
  ultimately show ?thesis
    unfolding st by simp
qed

subsection \<open>maxfd in the select server when the listening socket is not descriptor 0\<close>

text \<open>The downward scan finds the greatest registered descriptor whenever one above 0 is
  left, so the select server keeps \<^verbatim>\<open>maxfd\<close> equal to the greatest member of \<^verbatim>\<open>set\<close>
  between turns of its loop, as long as it listens on a descriptor above 0.\<close>

lemma scan_maxfd_greatest:
  assumes "live x" "0 < x" "x \<le> ii"
  shows "live (scan_maxfd live ii old) \<and> x \<le> scan_maxfd live ii old
         \<and> scan_maxfd live ii old \<le> ii"
  using assms
proof (induction live ii old rule: scan_maxfd.induct)
  case (1 live ii old)
  show ?case
  proof (cases "live ii")
    case True
    with 1 show ?thesis by (subst (1 2 3) scan_maxfd.simps) auto
  next
    case False
    with "1.prems" have "x \<le> ii - 1" "0 < ii" by (auto simp: order_less_le)
    with False "1.IH" "1.prems" show ?thesis
      by (subst (1 2 3) scan_maxfd.simps) auto
  qed
qed


lemma select_accept_inv:
  "select_inv st \<Longrightarrow> select_accept st c = Go st' \<Longrightarrow> select_inv st'"
  by (fastforce simp: select_inv_def select_accept_def Let_def split: if_splits)

lemma select_client_inv:
  assumes "select_inv st" "eventfd \<noteq> listensock st" "select_client st eventfd r = Go st'"
  shows "select_inv st'"
proof (cases "fst (sys_read (zero_buffer 1024) r) \<le> 0")
  case True
  let ?S = "fdset st - {eventfd}"
  have ls: "listensock st \<in> ?S" "0 < listensock st"
    using assms(1,2) by (auto simp: select_inv_def)
  show ?thesis
  proof (cases "eventfd = maxfd st")
    case False
    with True assms show ?thesis
      by (auto simp: select_inv_def select_client_def Let_def split: prod.splits)
  next
    case max: True
    from assms(1) have "listensock st \<le> maxfd st" by (auto simp: select_inv_def)
    from scan_maxfd_greatest [of "\<lambda>ii. ii \<in> ?S", OF ls(1) ls(2) this, of "maxfd st"]
    have m: "scan_maxfd (\<lambda>ii. ii \<in> ?S) (maxfd st) (maxfd st) \<in> ?S" by simp
    have "\<forall>fd\<in>?S. fd \<le> scan_maxfd (\<lambda>ii. ii \<in> ?S) (maxfd st) (maxfd st)"
    proof
      fix fd assume fd: "fd \<in> ?S"
      show "fd \<le> scan_maxfd (\<lambda>ii. ii \<in> ?S) (maxfd st) (maxfd st)"
      proof (cases "0 < fd")
        case True
        from fd assms(1) have "fd \<le> maxfd st" by (auto simp: select_inv_def)
        from scan_maxfd_greatest [of "\<lambda>ii. ii \<in> ?S", OF fd True this] show ?thesis by simp
      next
        case False
        from scan_maxfd_greatest [of "\<lambda>ii. ii \<in> ?S", OF ls(1) ls(2) \<open>listensock st \<le> maxfd st\<close>, of "maxfd st"]
          ls(2) False
        show ?thesis by linarith
      qed
    qed
    with m max True assms ls show ?thesis
      by (auto simp: select_inv_def select_client_def Let_def split: prod.splits)
  qed
next
  case False
  with assms show ?thesis
    by (auto simp: select_inv_def select_client_def Let_def split: prod.splits dest!: echo_Go)
qed

lemma select_body_inv:
  "select_inv st \<Longrightarrow> select_body st tmpfdset r eventfd = Go st' \<Longrightarrow> select_inv st'"
  by (auto simp: select_body_def split: if_splits intro: select_accept_inv select_client_inv)

lemma echo_not_Running: "echo fd buffer st \<noteq> Running st'"
  by (simp add: echo_def split: option.splits)

lemma select_body_not_Running: "select_body st tmpfdset r eventfd \<noteq> Running st'"
  by (simp add: select_body_def select_accept_def select_client_def Let_def echo_not_Running
      split: prod.splits)

lemma select_for_not_Running: "select_for st tmpfdset env eventfd \<noteq> Running st'"
proof (induction st tmpfdset env eventfd rule: select_for.induct)
  case (1 st tmpfdset env eventfd)
  show ?case
  proof (cases "eventfd \<le> maxfd st")
    case True
    then show ?thesis
      using 1 select_body_not_Running [of st tmpfdset "env eventfd" eventfd]
      by (subst select_for.simps) (auto split: flow.splits)
  next
    case False
    then show ?thesis by (subst select_for.simps) simp
  qed
qed

lemma select_for_inv:
  "select_inv st \<Longrightarrow> select_for st tmpfdset env eventfd = Go st' \<Longrightarrow> select_inv st'"
proof (induction st tmpfdset env eventfd rule: select_for.induct)
  case (1 st tmpfdset env eventfd)
  show ?case
  proof (cases "eventfd \<le> maxfd st")
    case False
    with "1.prems" show ?thesis by (subst (asm) select_for.simps) simp
  next
    case True
    with "1.prems"(2) obtain st1 where
      b: "select_body st tmpfdset (env eventfd) eventfd = Go st1"
      and f: "select_for st1 tmpfdset env (eventfd + 1) = Go st'"
      by (subst (asm) select_for.simps) (auto split: flow.splits)
    from "1.IH" [OF True b select_body_inv [OF "1.prems"(1) b] f] show ?thesis .
  qed
qed

lemma select_inv_emit [simp]: "select_inv (emit a st) = select_inv st"
  by (simp add: select_inv_def)

lemma select_loop_inv:
  "select_inv st \<Longrightarrow> select_loop st script = Running st' \<Longrightarrow> select_inv st'"
proof (induction script arbitrary: st)
  case Nil
  then show ?case by simp
next
  case (Cons w ws)
  show ?case
  proof (cases "wait_ret w \<le> 0")
    case True
    with Cons.prems(2) have "select_loop (emit (SysSelect (maxfd st + 1)) st) ws = Running st'"
      by (auto simp: Let_def split: if_splits)
    moreover from Cons.prems(1) have "select_inv (emit (SysSelect (maxfd st + 1)) st)"
      by simp
    ultimately show ?thesis by (rule Cons.IH [rotated])
  next
    case False
    let ?st1 = "emit (SysSelect (maxfd st + 1)) st"
    let ?tmp = "Set.filter (\<lambda>fd. fd \<le> maxfd st \<longrightarrow> fd \<in> report w) (fdset st)"
    from False Cons.prems(2) obtain st2 where
      f: "select_for ?st1 ?tmp (replies w) 0 = Go st2" and l: "select_loop st2 ws = Running st'"
      using select_for_not_Running [of ?st1 ?tmp "replies w" 0 st']
      by (auto simp: Let_def split: if_splits flow.splits)
    from Cons.prems(1) have "select_inv ?st1" by simp
    from Cons.IH [OF select_for_inv [OF this f] l] show ?thesis .
  qed
qed

lemma select_init_inv: "0 < sock \<Longrightarrow> select_inv (select_init sock tr)"
  by (simp add: select_inv_def select_init_def)

lemma select_maxfd_is_greatest:
  assumes "0 < sock" "select_loop (select_init sock tr) script = Running st'"
  shows "maxfd st' \<in> fdset st' \<and> (\<forall>fd\<in>fdset st'. fd \<le> maxfd st')"
  using select_loop_inv [OF select_init_inv [OF assms(1)] assms(2)]
  by (simp add: select_inv_def)


end
